theory Spec2Isabelle
  imports Main "HOL-Library.Sublist"
begin

section \<open>The data store: tables, constraints and row-level policies\<close>

text \<open>
  The tables of \<^verbatim>\<open>20251017032616_create_social_media_schema.sql\<close>, with the columns the
  screens read or write. Identifiers (\<^verbatim>\<open>uuid\<close>) are abstract tokens; a table is the list
  of its rows. Columns no modelled query touches (\<^verbatim>\<open>bio\<close>, \<^verbatim>\<open>content\<close>, \<^verbatim>\<open>media_url\<close>,
  \<^verbatim>\<open>media_type\<close>, the timestamps) are left out.
\<close>

type_synonym uuid = nat

record profile =
  profile_id :: uuid
  username :: string
  full_name :: string
  avatar_url :: string

record post =
  post_id :: uuid
  post_user_id :: uuid
  likes_count :: int

record friendship =
  f_id :: uuid
  user_id :: uuid
  friend_id :: uuid
  status :: string

record like_row =
  like_id :: uuid
  like_user_id :: uuid
  like_post_id :: uuid

text \<open>
  \<open>id_seq\<close> stands for \<^verbatim>\<open>gen_random_uuid()\<close>: the next identifier the store hands out.
\<close>

record store =
  profiles :: "profile list"
  posts :: "post list"
  friendships :: "friendship list"
  likes :: "like_row list"
  id_seq :: uuid

text \<open>
  What a request can answer in its \<^verbatim>\<open>error\<close> field. The client library resolves every
  request to \<^verbatim>\<open>{ data, error }\<close> and does not throw; the screens turn an error into an
  exception themselves with \<^verbatim>\<open>if (error) throw error\<close> where they want one.
\<close>

datatype pg_error =
    unique_violation
  | foreign_key_violation
  | rls_violation
  | numeric_value_out_of_range
  | multiple_rows
  | filter_parse_error
  | fetch_failed

type_synonym 'a response = "pg_error + 'a"

subsection \<open>Table \<^verbatim>\<open>likes\<close>\<close>

text \<open>
  \<^verbatim>\<open>INSERT INTO likes (post_id, user_id)\<close> issued by the session \<open>uid\<close>: the insert policy
  \<^verbatim>\<open>WITH CHECK (auth.uid() = user_id)\<close>, the constraint \<^verbatim>\<open>UNIQUE(user_id, post_id)\<close> and the two
  foreign keys.
\<close>

definition likes_insert :: "uuid \<Rightarrow> uuid \<Rightarrow> uuid \<Rightarrow> store \<Rightarrow> unit response \<times> store" where
  "likes_insert uid pid liker s =
     (if uid \<noteq> liker then (Inl rls_violation, s)
      else if \<exists>l \<in> set (likes s). like_user_id l = liker \<and> like_post_id l = pid
        then (Inl unique_violation, s)
      else if liker \<notin> set (map profile_id (profiles s)) \<or> pid \<notin> set (map post_id (posts s))
        then (Inl foreign_key_violation, s)
      else (Inr (),
            s\<lparr>likes := likes s @ [\<lparr>like_id = id_seq s, like_user_id = liker, like_post_id = pid\<rparr>],
              id_seq := Suc (id_seq s)\<rparr>))"

text \<open>
  \<^verbatim>\<open>DELETE FROM likes WHERE post_id = pid AND user_id = liker\<close> under the delete policy
  \<^verbatim>\<open>USING (auth.uid() = user_id)\<close>. Deleting no row is not an error.
\<close>

definition likes_delete :: "uuid \<Rightarrow> uuid \<Rightarrow> uuid \<Rightarrow> store \<Rightarrow> unit response \<times> store" where
  "likes_delete uid pid liker s =
     (Inr (),
      s\<lparr>likes := filter (\<lambda>l. \<not> (like_post_id l = pid \<and> like_user_id l = liker \<and> uid = like_user_id l))
                         (likes s)\<rparr>)"

subsection \<open>The counter functions\<close>

text \<open>
  \<^verbatim>\<open>increment_likes\<close> and \<^verbatim>\<open>decrement_likes\<close> of \<^verbatim>\<open>20251017032841_create_like_functions.sql\<close>.
  Each is one \<^verbatim>\<open>UPDATE posts ... WHERE id = post_id\<close>. The functions are declared without
  \<^verbatim>\<open>SECURITY DEFINER\<close>, so the statement runs with the caller's rights, and \<^verbatim>\<open>posts\<close> has row
  level security enabled with the single update policy
  \<^verbatim>\<open>"Users can update own posts" USING (auth.uid() = user_id)\<close>: the rows the update reaches are
  those of \<open>counter_targets\<close>. \<^verbatim>\<open>likes_count\<close> is a 32-bit \<^verbatim>\<open>integer\<close>; arithmetic that leaves
  its range aborts the statement.
\<close>

definition posts_update_policy :: "uuid \<Rightarrow> post \<Rightarrow> bool" where
  "posts_update_policy uid p = (uid = post_user_id p)"

definition counter_targets :: "uuid \<Rightarrow> uuid \<Rightarrow> store \<Rightarrow> post list" where
  "counter_targets uid pid s = filter (\<lambda>p. post_id p = pid \<and> posts_update_policy uid p) (posts s)"

definition increment_likes :: "uuid \<Rightarrow> uuid \<Rightarrow> store \<Rightarrow> unit response \<times> store" where
  "increment_likes uid pid s =
     (if \<exists>p \<in> set (counter_targets uid pid s). likes_count p + 1 > 2147483647
        then (Inl numeric_value_out_of_range, s)
      else (Inr (),
            s\<lparr>posts := map (\<lambda>p. if post_id p = pid \<and> posts_update_policy uid p
                                then p\<lparr>likes_count := likes_count p + 1\<rparr> else p) (posts s)\<rparr>))"

definition decrement_likes :: "uuid \<Rightarrow> uuid \<Rightarrow> store \<Rightarrow> unit response \<times> store" where
  "decrement_likes uid pid s =
     (if \<exists>p \<in> set (counter_targets uid pid s). likes_count p - 1 < - 2147483648
        then (Inl numeric_value_out_of_range, s)
      else (Inr (),
            s\<lparr>posts := map (\<lambda>p. if post_id p = pid \<and> posts_update_policy uid p
                                then p\<lparr>likes_count := max (likes_count p - 1) 0\<rparr> else p) (posts s)\<rparr>))"

subsection \<open>Table \<^verbatim>\<open>friendships\<close>\<close>

text \<open>
  The select, update and delete policies of \<^verbatim>\<open>friendships\<close> all have the condition
  \<^verbatim>\<open>auth.uid() = user_id OR auth.uid() = friend_id\<close>; a row that fails it is invisible to the
  statement, which is not an error.
\<close>

definition friendships_party_policy :: "uuid \<Rightarrow> friendship \<Rightarrow> bool" where
  "friendships_party_policy uid r = (uid = user_id r \<or> uid = friend_id r)"

text \<open>
  \<^verbatim>\<open>INSERT INTO friendships (user_id, friend_id, status)\<close>: the insert policy
  \<^verbatim>\<open>WITH CHECK (auth.uid() = user_id)\<close>, the constraint \<^verbatim>\<open>UNIQUE(user_id, friend_id)\<close> on the
  ordered pair, and the foreign keys to \<^verbatim>\<open>profiles\<close>. The table has no \<^verbatim>\<open>CHECK\<close> constraint.
  The answer carries the new row's id (read by \<^verbatim>\<open>.select().single()\<close> where the caller asks).
\<close>

definition friendships_insert ::
    "uuid \<Rightarrow> uuid \<Rightarrow> uuid \<Rightarrow> string \<Rightarrow> store \<Rightarrow> uuid response \<times> store" where
  "friendships_insert uid usr frd st s =
     (if uid \<noteq> usr then (Inl rls_violation, s)
      else if \<exists>r \<in> set (friendships s). user_id r = usr \<and> friend_id r = frd
        then (Inl unique_violation, s)
      else if usr \<notin> set (map profile_id (profiles s)) \<or> frd \<notin> set (map profile_id (profiles s))
        then (Inl foreign_key_violation, s)
      else (Inr (id_seq s),
            s\<lparr>friendships := friendships s @
                   [\<lparr>f_id = id_seq s, user_id = usr, friend_id = frd, status = st\<rparr>],
              id_seq := Suc (id_seq s)\<rparr>))"

text \<open>\<^verbatim>\<open>UPDATE friendships SET status = st WHERE id = fid\<close>.\<close>

definition friendships_update_status :: "uuid \<Rightarrow> uuid \<Rightarrow> string \<Rightarrow> store \<Rightarrow> unit response \<times> store" where
  "friendships_update_status uid fid st s =
     (Inr (),
      s\<lparr>friendships := map (\<lambda>r. if f_id r = fid \<and> friendships_party_policy uid r
                                 then r\<lparr>status := st\<rparr> else r) (friendships s)\<rparr>)"

text \<open>\<^verbatim>\<open>DELETE FROM friendships WHERE id = fid\<close>.\<close>

definition friendships_delete :: "uuid \<Rightarrow> uuid \<Rightarrow> store \<Rightarrow> unit response \<times> store" where
  "friendships_delete uid fid s =
     (Inr (),
      s\<lparr>friendships := filter (\<lambda>r. \<not> (f_id r = fid \<and> friendships_party_policy uid r))
                               (friendships s)\<rparr>)"

text \<open>
  The query of \<^verbatim>\<open>loadFriends\<close>:
  \<^verbatim>\<open>from('friendships').select('id, friend_id, profiles:friend_id (...)').eq('user_id', me).eq('status', 'accepted')\<close>.
  The embedded \<^verbatim>\<open>profiles\<close> object is the profile the row's \<^verbatim>\<open>friend_id\<close> references.
\<close>

definition friends_query :: "uuid \<Rightarrow> uuid \<Rightarrow> store \<Rightarrow> (friendship \<times> profile option) list response \<times> store" where
  "friends_query uid me s =
     (Inr (map (\<lambda>r. (r, find (\<lambda>p. profile_id p = friend_id r) (profiles s)))
             (filter (\<lambda>r. friendships_party_policy uid r \<and> user_id r = me \<and> status r = ''accepted'')
                     (friendships s))), s)"

text \<open>
  The query of \<^verbatim>\<open>loadRequests\<close>:
  \<^verbatim>\<open>select('id, user_id, profiles:user_id (...)').eq('friend_id', me).eq('status', 'pending')\<close>.
\<close>

definition requests_query :: "uuid \<Rightarrow> uuid \<Rightarrow> store \<Rightarrow> (friendship \<times> profile option) list response \<times> store" where
  "requests_query uid me s =
     (Inr (map (\<lambda>r. (r, find (\<lambda>p. profile_id p = user_id r) (profiles s)))
             (filter (\<lambda>r. friendships_party_policy uid r \<and> friend_id r = me \<and> status r = ''pending'')
                     (friendships s))), s)"

text \<open>
  The relationship lookup of \<^verbatim>\<open>searchUsers\<close> and \<^verbatim>\<open>loadUserProfile\<close>:
  \<^verbatim>\<open>select('id, status').or(`and(user_id.eq.a,friend_id.eq.b),and(user_id.eq.b,friend_id.eq.a)`).maybeSingle()\<close>.
  \<^verbatim>\<open>maybeSingle\<close> answers \<^verbatim>\<open>data: null\<close> for no row, the row for one, and an error for more.
\<close>

definition findBetween :: "uuid \<Rightarrow> uuid \<Rightarrow> uuid \<Rightarrow> store \<Rightarrow> friendship option response \<times> store" where
  "findBetween uid a b s =
     (case filter (\<lambda>r. friendships_party_policy uid r \<and>
                        ((user_id r = a \<and> friend_id r = b) \<or> (user_id r = b \<and> friend_id r = a)))
                  (friendships s) of
        [] \<Rightarrow> (Inr None, s)
      | [r] \<Rightarrow> (Inr (Some r), s)
      | _ \<Rightarrow> (Inl multiple_rows, s))"

subsection \<open>Table \<^verbatim>\<open>profiles\<close>: the search filter\<close>






section \<open>The screens\<close>

text \<open>
  The state the handlers work on: the remote store, the transport, the console and the React
  state of the screens. \<open>net\<close> scripts the transport: its head says whether the next request
  reaches the store (\<open>False\<close>: the request fails with \<open>fetch_failed\<close> and changes nothing);
  past its end every request gets through. \<open>sent\<close> counts the requests issued.
  \<open>console\<close> collects the \<^verbatim>\<open>console.error(message, error)\<close> calls. The flags that only drive
  rendering (\<^verbatim>\<open>loading\<close>, \<^verbatim>\<open>refreshing\<close>, \<^verbatim>\<open>activeTab\<close>) are not part of it.
\<close>

text \<open>
  \<^verbatim>\<open>interface Friend\<close>: the profile's columns (absent when the embedded profile is \<^verbatim>\<open>null\<close>) and
  the optional \<^verbatim>\<open>friendship_id\<close> and \<^verbatim>\<open>status\<close>.
\<close>

record friend =
  person :: "profile option"
  friendship_id :: "uuid option"
  rel_status :: "string option"

text \<open>The fields of \<^verbatim>\<open>interface Post\<close> that \<^verbatim>\<open>handleLike\<close> rewrites.\<close>

record post_view =
  pv_id :: uuid
  pv_likes_count :: int
  liked_by_user :: bool

record app =
  db :: store
  net :: "bool list"
  sent :: nat
  console :: "(string \<times> pg_error) list"
  friends :: "friend list"
  requests :: "friend list"
  searchResults :: "friend list"
  home_posts :: "post_view list"
  friendshipStatus :: "string option"
  friendshipId :: "uuid option"

definition request :: "(store \<Rightarrow> 'a response \<times> store) \<Rightarrow> app \<Rightarrow> 'a response \<times> app" where
  "request q a =
     (case net a of
        False # rest \<Rightarrow> (Inl fetch_failed, a\<lparr>net := rest, sent := Suc (sent a)\<rparr>)
      | _ \<Rightarrow> (case q (db a) of
                (r, s') \<Rightarrow> (r, a\<lparr>db := s', net := tl (net a), sent := Suc (sent a)\<rparr>)))"


definition console_error :: "string \<Rightarrow> pg_error \<Rightarrow> app \<Rightarrow> app" where
  "console_error msg e a = a\<lparr>console := console a @ [(msg, e)]\<rparr>"

subsection \<open>Friends screen (\<^verbatim>\<open>friends.tsx\<close>)\<close>

text \<open>In every handler \<open>uid\<close> is the signed-in user, \<^verbatim>\<open>user?.id\<close>.\<close>

definition loadFriends :: "uuid \<Rightarrow> app \<Rightarrow> app" where
  "loadFriends uid a =
     (case request (friends_query uid uid) a of
        (Inl e, a') \<Rightarrow> console_error ''Error loading friends:'' e a'
      | (Inr rows, a') \<Rightarrow>
          a'\<lparr>friends := map (\<lambda>(r, p). \<lparr>person = p, friendship_id = Some (f_id r), rel_status = None\<rparr>)
                            rows\<rparr>)"

definition loadRequests :: "uuid \<Rightarrow> app \<Rightarrow> app" where
  "loadRequests uid a =
     (case request (requests_query uid uid) a of
        (Inl e, a') \<Rightarrow> console_error ''Error loading requests:'' e a'
      | (Inr rows, a') \<Rightarrow>
          a'\<lparr>requests := map (\<lambda>(r, p). \<lparr>person = p, friendship_id = Some (f_id r),
                                        rel_status = Some ''pending''\<rparr>) rows\<rparr>)"





definition sendFriendRequest :: "uuid \<Rightarrow> uuid \<Rightarrow> app \<Rightarrow> app" where
  "sendFriendRequest uid friendId a =
     (case request (friendships_insert uid uid friendId ''pending'') a of
        (Inl e, a') \<Rightarrow> console_error ''Error sending friend request:'' e a'
      | (Inr _, a') \<Rightarrow>
          a'\<lparr>searchResults :=
               map (\<lambda>u. if map_option profile_id (person u) = Some friendId
                         then u\<lparr>rel_status := Some ''pending''\<rparr> else u) (searchResults a')\<rparr>)"

definition acceptRequest :: "uuid \<Rightarrow> uuid \<Rightarrow> app \<Rightarrow> app" where
  "acceptRequest uid friendshipId' a =
     (case request (friendships_update_status uid friendshipId' ''accepted'') a of
        (Inl e, a') \<Rightarrow> console_error ''Error accepting request:'' e a'
      | (Inr _, a') \<Rightarrow> loadRequests uid a')"

definition rejectRequest :: "uuid \<Rightarrow> uuid \<Rightarrow> app \<Rightarrow> app" where
  "rejectRequest uid friendshipId' a =
     (case request (friendships_delete uid friendshipId') a of
        (Inl e, a') \<Rightarrow> console_error ''Error rejecting request:'' e a'
      | (Inr _, a') \<Rightarrow> loadRequests uid a')"

definition removeFriend :: "uuid \<Rightarrow> uuid \<Rightarrow> app \<Rightarrow> app" where
  "removeFriend uid friendshipId' a =
     (case request (friendships_delete uid friendshipId') a of
        (Inl e, a') \<Rightarrow> console_error ''Error removing friend:'' e a'
      | (Inr _, a') \<Rightarrow> loadFriends uid a')"

subsection \<open>User profile screen\<close>

text \<open>
  \<^verbatim>\<open>handleFriendAction\<close> of the user profile screen; \<open>shown\<close> is the route parameter \<^verbatim>\<open>id\<close>, the
  profile on display. The answer of the delete is not read.
\<close>

definition handleFriendAction :: "uuid \<Rightarrow> uuid \<Rightarrow> app \<Rightarrow> app" where
  "handleFriendAction uid shown a =
     (if friendshipStatus a = Some ''accepted'' then
        (case friendshipId a of
           Some fid \<Rightarrow>
             (snd (request (friendships_delete uid fid) a))\<lparr>friendshipStatus := None, friendshipId := None\<rparr>
         | None \<Rightarrow> a)
      else if friendshipStatus a = Some ''pending'' then a
      else (case request (friendships_insert uid uid shown ''pending'') a of
              (Inl e, a') \<Rightarrow> console_error ''Error managing friendship:'' e a'
            | (Inr new_id, a') \<Rightarrow> a'\<lparr>friendshipStatus := Some ''pending'', friendshipId := Some new_id\<rparr>))"

subsection \<open>Home and Reels screens\<close>

text \<open>
  \<^verbatim>\<open>handleLike\<close>, the same in the Home screen and the Reels screen. The answers of the two
  requests of each branch are awaited and not read; the local list is rewritten afterwards.
  No request throws, so the \<^verbatim>\<open>catch\<close> branch is never entered.
\<close>

definition handleLike :: "uuid \<Rightarrow> uuid \<Rightarrow> bool \<Rightarrow> app \<Rightarrow> app" where
  "handleLike uid postId isLiked a =
     (let a1 = (if isLiked then snd (request (likes_delete uid postId uid) a)
                else snd (request (likes_insert uid postId uid) a));
          a2 = (if isLiked then snd (request (decrement_likes uid postId) a1)
                else snd (request (increment_likes uid postId) a1))
      in a2\<lparr>home_posts :=
              map (\<lambda>p. if pv_id p = postId
                        then p\<lparr>liked_by_user := \<not> isLiked,
                               pv_likes_count := pv_likes_count p + (if isLiked then - 1 else 1)\<rparr>
                        else p) (home_posts a2)\<rparr>)"

text \<open>
  The spec's \<^verbatim>\<open>like(P, C)\<close> is \<^verbatim>\<open>handleLike(C, false)\<close> in P's session, \<^verbatim>\<open>unlike(P, C)\<close> is
  \<^verbatim>\<open>handleLike(C, true)\<close>. A serial history is a list of such calls, run one after the other.
\<close>

datatype like_call = Like uuid uuid | Unlike uuid uuid

fun run_call :: "like_call \<Rightarrow> app \<Rightarrow> app" where
  "run_call (Like p c) a = handleLike p c False a"
| "run_call (Unlike p c) a = handleLike p c True a"

fun run_calls :: "like_call list \<Rightarrow> app \<Rightarrow> app" where
  "run_calls [] a = a"
| "run_calls (x # xs) a = run_calls xs (run_call x a)"

text \<open>A freshly started session over a given store.\<close>

definition session :: "store \<Rightarrow> app" where
  "session s = \<lparr>db = s, net = [], sent = 0, console = [], friends = [], requests = [],
                searchResults = [], home_posts = [], friendshipStatus = None, friendshipId = None\<rparr>"

subsection \<open>Example states\<close>

text \<open>
  Three profiles and one post of the first of them, with the counter at its default, no
  friendship and no like.
\<close>

definition alice :: profile where
  "alice = \<lparr>profile_id = 1, username = ''alice'', full_name = ''Alice A'', avatar_url = []\<rparr>"

definition bob :: profile where
  "bob = \<lparr>profile_id = 2, username = ''bob'', full_name = ''Bob B'', avatar_url = []\<rparr>"

definition carol :: profile where
  "carol = \<lparr>profile_id = 3, username = ''carol'', full_name = ''Carol C'', avatar_url = []\<rparr>"

definition store0 :: store where
  "store0 = \<lparr>profiles = [alice, bob, carol],
             posts = [\<lparr>post_id = 10, post_user_id = 1, likes_count = 0\<rparr>],
             friendships = [], likes = [], id_seq = 100\<rparr>"





subsection \<open>Search: the words of the specification\<close>







subsection \<open>The counter invariant\<close>

text \<open>No counter of content item \<open>c\<close> is negative.\<close>

definition counter_ok :: "uuid \<Rightarrow> store \<Rightarrow> bool" where
  "counter_ok c s = (\<forall>p \<in> set (posts s). post_id p = c \<longrightarrow> 0 \<le> likes_count p)"

section \<open>Requests and the store\<close>

lemma db_request:
  "db (snd (request q a)) = (if net a \<noteq> [] \<and> \<not> hd (net a) then db a else snd (q (db a)))"
  by (cases "net a") (auto simp: request_def split: prod.splits list.splits bool.splits)

lemmas example_defs = session_def store0_def alice_def bob_def carol_def

lemmas like_defs = handleLike_def request_def likes_insert_def likes_delete_def
  increment_likes_def decrement_likes_def counter_targets_def posts_update_policy_def Let_def

section \<open>The like counter\<close>

lemma request_counter_ok:
  assumes "\<And>s. counter_ok c s \<Longrightarrow> counter_ok c (snd (q s))" and "counter_ok c (db a)"
  shows "counter_ok c (db (snd (request q a)))"
  using assms by (simp add: db_request)

lemma likes_insert_counter_ok: "counter_ok c s \<Longrightarrow> counter_ok c (snd (likes_insert uid pid liker s))"
  by (simp add: counter_ok_def likes_insert_def)

lemma likes_delete_counter_ok: "counter_ok c s \<Longrightarrow> counter_ok c (snd (likes_delete uid pid liker s))"
  by (simp add: counter_ok_def likes_delete_def)

lemma increment_likes_counter_ok: "counter_ok c s \<Longrightarrow> counter_ok c (snd (increment_likes uid pid s))"
  by (auto simp: counter_ok_def increment_likes_def)

lemma decrement_likes_counter_ok: "counter_ok c s \<Longrightarrow> counter_ok c (snd (decrement_likes uid pid s))"
  by (auto simp: counter_ok_def decrement_likes_def)

lemma db_handleLike:
  "db (handleLike uid pid isLiked a) =
     (if isLiked
      then db (snd (request (decrement_likes uid pid) (snd (request (likes_delete uid pid uid) a))))
      else db (snd (request (increment_likes uid pid) (snd (request (likes_insert uid pid uid) a)))))"
  by (simp add: handleLike_def Let_def)

lemma handleLike_counter_ok:
  assumes "counter_ok c (db a)"
  shows "counter_ok c (db (handleLike uid pid isLiked a))"
proof (cases isLiked)
  case True
  have ledger: "counter_ok c (db (snd (request (likes_delete uid pid uid) a)))"
    by (rule request_counter_ok[OF likes_delete_counter_ok assms])
  have "counter_ok c (db (snd (request (decrement_likes uid pid)
                                  (snd (request (likes_delete uid pid uid) a)))))"
    by (rule request_counter_ok[OF decrement_likes_counter_ok ledger])
  with True show ?thesis by (simp only: db_handleLike if_True)
next
  case False
  have ledger: "counter_ok c (db (snd (request (likes_insert uid pid uid) a)))"
    by (rule request_counter_ok[OF likes_insert_counter_ok assms])
  have "counter_ok c (db (snd (request (increment_likes uid pid)
                                  (snd (request (likes_insert uid pid uid) a)))))"
    by (rule request_counter_ok[OF increment_likes_counter_ok ledger])
  with False show ?thesis by (simp only: db_handleLike if_False)
qed

lemma run_calls_counter_ok:
  "counter_ok c (db a) \<Longrightarrow> counter_ok c (db (run_calls calls a))"
proof (induction calls arbitrary: a)
  case Nil
  then show ?case by simp
next
  case (Cons x xs)
  have "counter_ok c (db (run_call x a))"
    using Cons.prems by (cases x) (simp_all add: handleLike_counter_ok)
  then show ?case using Cons.IH by simp
qed

text \<open>
  C5. Whatever the history of like and unlike calls (any profiles, any content items, matched or
  not, whatever the transport does), a counter of content item \<open>c\<close> that is not negative before
  the history is not negative after any number \<open>k\<close> of its calls: it never becomes negative.
  The decrement writes \<^verbatim>\<open>GREATEST(likes_count - 1, 0)\<close>.
\<close>

theorem like_count_never_negative:
  assumes "\<forall>p \<in> set (posts (db a)). post_id p = c \<longrightarrow> 0 \<le> likes_count p"
  shows "\<forall>p \<in> set (posts (db (run_calls (take k calls) a))). post_id p = c \<longrightarrow> 0 \<le> likes_count p"
  using assms run_calls_counter_ok[of c a "take k calls"] unfolding counter_ok_def by blast

text \<open>
  Two unmatched unlikes, a like and two more unlikes of the owner's, from the counter at 0.
\<close>

theorem like_count_never_negative_witness:
  "posts (db (run_calls [Unlike 1 10, Unlike 2 10, Like 1 10, Unlike 1 10, Unlike 1 10]
                (session store0))) = [\<lparr>post_id = 10, post_user_id = 1, likes_count = 0\<rparr>]
   \<and> 0 \<le> likes_count (hd (posts (db (run_calls
                [Unlike 1 10, Unlike 2 10, Like 1 10, Unlike 1 10, Unlike 1 10] (session store0)))))"
proof -
  let ?calls = "[Unlike 1 10, Unlike 2 10, Like 1 10, Unlike 1 10, Unlike 1 10]"
  have start: "\<forall>p \<in> set (posts (db (session store0))). post_id p = 10 \<longrightarrow> 0 \<le> likes_count p"
    by (simp add: example_defs)
  have final: "posts (db (run_calls ?calls (session store0))) =
                 [\<lparr>post_id = 10, post_user_id = 1, likes_count = 0\<rparr>]"
    by (simp add: example_defs like_defs)
  then have "hd (posts (db (run_calls ?calls (session store0))))
               \<in> set (posts (db (run_calls ?calls (session store0))))"
    and "post_id (hd (posts (db (run_calls ?calls (session store0))))) = 10"
    by simp_all
  moreover have "take 5 ?calls = ?calls"
    by simp
  ultimately show ?thesis
    using like_count_never_negative[OF start, of 5 ?calls] final by metis
qed

text \<open>
  C1. The owner of post 10 likes it twice in a row, from an empty ledger and the counter at 0
  (\<^verbatim>\<open>handleLike(10, false)\<close> twice, as two sessions of the same profile with a stale list do).
  The second insert is refused by \<^verbatim>\<open>UNIQUE(user_id, post_id)\<close>, its answer is not read, and
  \<^verbatim>\<open>increment_likes\<close> runs again: the ledger holds one row and the counter is 2.
\<close>

theorem like_twice_counts_twice:
  "likes (db (run_calls [Like 1 10, Like 1 10] (session store0))) =
      [\<lparr>like_id = 100, like_user_id = 1, like_post_id = 10\<rparr>]
   \<and> posts (db (run_calls [Like 1 10, Like 1 10] (session store0))) =
      [\<lparr>post_id = 10, post_user_id = 1, likes_count = 2\<rparr>]
   \<and> console (run_calls [Like 1 10, Like 1 10] (session store0)) = []"
  by (simp add: example_defs like_defs)

text \<open>
  C6. Two distinct profiles like post 10, which the first of them owns, from the counter at 0,
  one call after the other (the serial one among the interleavings). Both ledger rows are
  written; the \<^verbatim>\<open>UPDATE\<close> of the second profile's \<^verbatim>\<open>increment_likes\<close> reaches no row, since the
  update policy of \<^verbatim>\<open>posts\<close> admits the owner only. The counter ends at 1 for two likes, and no
  error is reported.
\<close>

theorem likes_of_two_profiles_count_once:
  "likes (db (run_calls [Like 1 10, Like 2 10] (session store0))) =
      [\<lparr>like_id = 100, like_user_id = 1, like_post_id = 10\<rparr>,
       \<lparr>like_id = 101, like_user_id = 2, like_post_id = 10\<rparr>]
   \<and> posts (db (run_calls [Like 1 10, Like 2 10] (session store0))) =
      [\<lparr>post_id = 10, post_user_id = 1, likes_count = 1\<rparr>]
   \<and> console (run_calls [Like 1 10, Like 2 10] (session store0)) = []"
  by (simp add: example_defs like_defs)

section \<open>The friendship records\<close>












lemmas friend_defs = sendFriendRequest_def acceptRequest_def rejectRequest_def removeFriend_def
  loadFriends_def loadRequests_def handleFriendAction_def request_def console_error_def
  friendships_insert_def friendships_update_status_def friendships_delete_def
  friends_query_def requests_query_def findBetween_def friendships_party_policy_def











text \<open>
  C4. Profile 1 requests profile 2 and profile 2 accepts. \<^verbatim>\<open>loadFriends\<close> selects the rows with
  \<^verbatim>\<open>user_id\<close> equal to the signed-in user only: the list of profile 1 holds profile 2, the list
  of profile 2 is empty.
\<close>

theorem accepted_friend_missing_from_target_list:
  "friendships (db (acceptRequest 2 100 (sendFriendRequest 1 2 (session store0)))) =
     [\<lparr>f_id = 100, user_id = 1, friend_id = 2, status = ''accepted''\<rparr>]
   \<and> friends (loadFriends 1 (acceptRequest 2 100 (sendFriendRequest 1 2 (session store0)))) =
     [\<lparr>person = Some bob, friendship_id = Some 100, rel_status = None\<rparr>]
   \<and> friends (loadFriends 2 (acceptRequest 2 100 (sendFriendRequest 1 2 (session store0)))) = []
   \<and> console (loadFriends 2 (acceptRequest 2 100 (sendFriendRequest 1 2 (session store0)))) = []"
  by (simp add: example_defs friend_defs)






section \<open>Search results and self-requests\<close>












section \<open>Errors of the store\<close>













section \<open>The search\<close>



















end
